theory Spec2Isabelle
  imports Main "HOL-Library.Sublist"
begin

section \<open>Python values read by polly.py\<close>

text \<open>
  An optional command-line string is \<open>None\<close> when the option is absent. Python treats
  \<open>None\<close> and the empty string as false in a condition; \<open>opt_str\<close> reads the value and
  \<open>truthy\<close> is the test \<^verbatim>\<open>if args.x:\<close>.
\<close>

definition opt_str :: "string option \<Rightarrow> string" where
  "opt_str s = (case s of None \<Rightarrow> [] | Some v \<Rightarrow> v)"

definition truthy :: "string option \<Rightarrow> bool" where
  "truthy s = (opt_str s \<noteq> [])"

text \<open>\<^verbatim>\<open>if args.jobs:\<close> on an optional integer: \<open>None\<close> and \<open>0\<close> are false.\<close>

definition opt_int :: "int option \<Rightarrow> int" where
  "opt_int j = (case j of None \<Rightarrow> 0 | Some v \<Rightarrow> v)"

definition truthy_int :: "int option \<Rightarrow> bool" where
  "truthy_int j = (opt_int j \<noteq> 0)"

subsection \<open>Decimal text of an integer: \<^verbatim>\<open>'{}'.format(n)\<close>\<close>

fun str_nat :: "nat \<Rightarrow> string" where
  "str_nat n =
     (if n < 10 then [''0123456789'' ! n]
      else str_nat (n div 10) @ [''0123456789'' ! (n mod 10)])"

declare str_nat.simps [simp del]

definition str_int :: "int \<Rightarrow> string" where
  "str_int i = (if i < 0 then CHR ''-'' # str_nat (nat (- i)) else str_nat (nat i))"

subsection \<open>\<^verbatim>\<open>int(string)\<close> on ASCII text\<close>

text \<open>
  Python accepts surrounding whitespace, one optional sign, and decimal digits that may be
  separated by single underscores; anything else raises \<^verbatim>\<open>ValueError\<close>, which is
  \<open>None\<close> here. Characters outside ASCII are not modelled.
\<close>

definition is_space :: "char \<Rightarrow> bool" where
  "is_space c =
     (c \<in> set [CHR 0x09, CHR 0x0A, CHR 0x0B, CHR 0x0C, CHR 0x0D,
                CHR 0x1C, CHR 0x1D, CHR 0x1E, CHR 0x1F, CHR 0x20])"

definition strip_space :: "string \<Rightarrow> string" where
  "strip_space s = rev (dropWhile is_space (rev (dropWhile is_space s)))"

definition digit_val :: "char \<Rightarrow> nat option" where
  "digit_val c = map_of (zip ''0123456789'' [0 ..< 10]) c"

fun digits_value :: "nat \<Rightarrow> string \<Rightarrow> nat option" where
  "digits_value acc [] = Some acc"
| "digits_value acc [c] =
     (case digit_val c of None \<Rightarrow> None | Some v \<Rightarrow> Some (acc * 10 + v))"
| "digits_value acc (c # d # ds) =
     (if c = CHR ''_''
      then (case digit_val d of None \<Rightarrow> None | Some v \<Rightarrow> digits_value (acc * 10 + v) ds)
      else (case digit_val c of None \<Rightarrow> None | Some v \<Rightarrow> digits_value (acc * 10 + v) (d # ds)))"

definition unsigned_value :: "string \<Rightarrow> nat option" where
  "unsigned_value s =
     (case s of [] \<Rightarrow> None
      | c # cs \<Rightarrow> (case digit_val c of None \<Rightarrow> None | Some v \<Rightarrow> digits_value v cs))"

definition py_int :: "string \<Rightarrow> int option" where
  "py_int s =
     (case strip_space s of
        [] \<Rightarrow> None
      | c # cs \<Rightarrow>
          if c = CHR ''-'' then map_option (\<lambda>n. - int n) (unsigned_value cs)
          else if c = CHR ''+'' then map_option int (unsigned_value cs)
          else map_option int (unsigned_value (c # cs)))"

subsection \<open>\<^verbatim>\<open>os.path.join\<close> (POSIX)\<close>

text \<open>
  A component that begins with the separator discards what was joined so far; a separator
  is inserted unless the path so far is empty or already ends with one.
\<close>

definition startswith_sep :: "string \<Rightarrow> bool" where
  "startswith_sep b = (case b of [] \<Rightarrow> False | c # _ \<Rightarrow> c = CHR ''/'')"

definition endswith_sep :: "string \<Rightarrow> bool" where
  "endswith_sep p = (case rev p of [] \<Rightarrow> False | c # _ \<Rightarrow> c = CHR ''/'')"

definition join_step :: "string \<Rightarrow> string \<Rightarrow> string" where
  "join_step path b =
     (if startswith_sep b then b
      else if path = [] \<or> endswith_sep path then path @ b
      else path @ ''/'' @ b)"

definition path_join :: "string \<Rightarrow> string list \<Rightarrow> string" where
  "path_join a p = foldl join_step a p"

section \<open>Command line\<close>

text \<open>
  The namespace returned by \<^verbatim>\<open>parser.parse_args()\<close>, with the options that decide the
  paths, the validation and the two commands (lines 194 to 399).
\<close>

record args =
  config :: "string option"
  home :: "string option"
  output_dir :: "string option"  \<comment> \<open>\<^verbatim>\<open>args.output\<close>\<close>
  pack :: "string option"
  archive :: "string option"
  nobuild :: bool
  verbosity :: string
  verbose :: bool
  install :: bool
  ios_multiarch :: bool
  ios_combined :: bool
  framework :: bool
  framework_device :: bool
  strip :: bool
  fwd :: "string list option"
  iossim :: bool
  jobs :: "int option"
  target :: "string option"

text \<open>What argparse returns when no option is given.\<close>

definition no_args :: args where
  "no_args =
     \<lparr> config = None, home = None, output_dir = None, pack = None, archive = None,
       nobuild = False, verbosity = ''normal'', verbose = False, install = False,
       ios_multiarch = False, ios_combined = False, framework = False,
       framework_device = False, strip = False, fwd = None, iossim = False,
       jobs = None, target = None \<rparr>"

subsection \<open>Option types\<close>

datatype parse_error = InvalidIntValue string | ArgumentTypeError string

text \<open>\<^verbatim>\<open>--jobs\<close> is declared with \<^verbatim>\<open>type=int\<close> (line 159).\<close>

definition jobs_type :: "string \<Rightarrow> parse_error + int" where
  "jobs_type s = (case py_int s of None \<Rightarrow> Inl (InvalidIntValue s) | Some v \<Rightarrow> Inr v)"

text \<open>\<^verbatim>\<open>PositiveInt\<close> (lines 168 to 173), the type of \<^verbatim>\<open>--discard\<close>, \<^verbatim>\<open>--tail\<close>, \<^verbatim>\<open>--timeout\<close>.\<close>

definition PositiveInt :: "string \<Rightarrow> parse_error + int" where
  "PositiveInt s =
     (case py_int s of
        None \<Rightarrow> Inl (InvalidIntValue s)
      | Some v \<Rightarrow>
          if v > 0 then Inr v
          else Inl (ArgumentTypeError (''Should be greater that zero: '' @ s)))"

section \<open>Resolved toolchain and surroundings\<close>

text \<open>
  Modelled from the spec: the entry type of \<^verbatim>\<open>detail.toolchain_table\<close> is not part of the
  source under study. The record holds the descriptor traits of the spec's data model that
  polly.py reads on the modelled lines; \<open>vs_version\<close> is kept as text, since the script
  formats it and converts it with \<^verbatim>\<open>int(...)\<close>, and the empty text stands for an absent
  value, also for \<open>arch\<close>, \<open>ios_version\<close> and \<open>osx_version\<close>.
\<close>

record toolchain =
  name :: string
  generator :: string
  multiconfig :: bool
  is_make :: bool
  is_nmake :: bool
  is_ninja :: bool
  is_xcode :: bool
  is_msvc :: bool
  vs_version :: string
  arch :: string
  ios_version :: string
  osx_version :: string
  xp :: bool
  nocodesign :: bool

text \<open>
  Every \<^verbatim>\<open>sys.exit(message)\<close> of the script, the exception of line 394, and the two
  failures that the spec names for the environment step of lines 209 to 241.
\<close>

datatype error =
    MissingRequiredEnvVar string
  | InvalidSdkRoot string
  | ToolchainFileNotFound string
  | BuildDirNotExists string
  | BuildDirNotWriteable string
  | BothInstallAndStrip
  | StripOnlyForMakefile
  | FrameworkOnlyForMac
  | ValueError string

text \<open>\<^verbatim>\<open>os.environ\<close>: a variable is unset or has a value.\<close>

type_synonym environment = "string \<Rightarrow> string option"

text \<open>
  What the script asks its surroundings: the directory of the toolchain files
  (\<^verbatim>\<open>polly_root\<close>), the working directory, the three file-system tests,
  \<^verbatim>\<open>platform.system()\<close> and the inherited environment. The last three fields are the
  collaborators \<^verbatim>\<open>detail.get_nmake_environment.get\<close>, \<^verbatim>\<open>detail.ios_dev_root.get\<close> and
  \<^verbatim>\<open>detail.osx_dev_root.get\<close>, whose code is not part of the source under study: each
  either returns its value (\<open>Inr\<close>) or ends the run (\<open>Inl\<close>, with the name of what it
  missed); the spec names \<^verbatim>\<open>MissingRequiredEnvVar\<close> and \<^verbatim>\<open>InvalidSdkRoot\<close> as the failures
  of this step.
\<close>

record world =
  polly_root :: string
  getcwd :: string
  path_exists :: "string \<Rightarrow> bool"
  path_isdir :: "string \<Rightarrow> bool"
  access_w :: "string \<Rightarrow> bool"
  platform_system :: string
  environ :: environment
  get_nmake_environment :: "string \<Rightarrow> string \<Rightarrow> string + environment"
  ios_dev_root :: "string \<Rightarrow> string + string option"
  osx_dev_root :: "string \<Rightarrow> string + string option"

section \<open>Environment (lines 209 to 241)\<close>

text \<open>\<^verbatim>\<open>'{}'.format(x)\<close> for an optional text: \<^verbatim>\<open>None\<close> prints as its name.\<close>

definition py_format :: "string option \<Rightarrow> string" where
  "py_format s = (case s of None \<Rightarrow> ''None'' | Some v \<Rightarrow> v)"

text \<open>
  Modelled from the spec: \<^verbatim>\<open>detail.verify_mingw_path\<close> and \<^verbatim>\<open>detail.verify_msys_path\<close> are
  not part of the source under study. The spec has the externally supplied root validated
  to exist and be a directory, and the step fail with \<^verbatim>\<open>MissingRequiredEnvVar\<close> when the
  variable is unset or does not point to an existing directory.
\<close>

definition verify_mingw_path :: "world \<Rightarrow> string option \<Rightarrow> error option" where
  "verify_mingw_path w mingw_path =
     (if truthy mingw_path \<and> path_isdir w (opt_str mingw_path) then None
      else Some (MissingRequiredEnvVar ''MINGW_PATH''))"

definition verify_msys_path :: "world \<Rightarrow> string option \<Rightarrow> error option" where
  "verify_msys_path w msys_path =
     (if truthy msys_path \<and> path_isdir w (opt_str msys_path) then None
      else Some (MissingRequiredEnvVar ''MSYS_PATH''))"

text \<open>Lines 210 to 213.\<close>

definition tune_mingw :: "world \<Rightarrow> toolchain \<Rightarrow> environment \<Rightarrow> error + environment" where
  "tune_mingw w toolchain_entry env =
     (if name toolchain_entry = ''mingw'' \<or> name toolchain_entry = ''mingw-c11''
      then (case verify_mingw_path w (env ''MINGW_PATH'') of
              Some e \<Rightarrow> Inl e
            | None \<Rightarrow>
                Inr (env(''PATH'' \<mapsto>
                  py_format (env ''MINGW_PATH'') @ '';'' @ py_format (env ''PATH''))))
      else Inr env)"

text \<open>Lines 215 to 218.\<close>

definition tune_msys :: "world \<Rightarrow> toolchain \<Rightarrow> environment \<Rightarrow> error + environment" where
  "tune_msys w toolchain_entry env =
     (if name toolchain_entry = ''msys''
      then (case verify_msys_path w (env ''MSYS_PATH'') of
              Some e \<Rightarrow> Inl e
            | None \<Rightarrow>
                Inr (env(''PATH'' \<mapsto>
                  py_format (env ''MSYS_PATH'') @ '';'' @ py_format (env ''PATH''))))
      else Inr env)"

text \<open>Lines 220 to 224: the whole environment is replaced.\<close>

definition tune_nmake :: "world \<Rightarrow> toolchain \<Rightarrow> environment \<Rightarrow> error + environment" where
  "tune_nmake w toolchain_entry env =
     (if is_nmake toolchain_entry \<or>
         (is_ninja toolchain_entry \<and> vs_version toolchain_entry \<noteq> [])
      then (case get_nmake_environment w (arch toolchain_entry) (vs_version toolchain_entry) of
              Inl missing \<Rightarrow> Inl (MissingRequiredEnvVar missing)
            | Inr vendor_env \<Rightarrow> Inr vendor_env)
      else Inr env)"

text \<open>Lines 226 to 230.\<close>

definition tune_ios :: "world \<Rightarrow> toolchain \<Rightarrow> environment \<Rightarrow> error + environment" where
  "tune_ios w toolchain_entry env =
     (if ios_version toolchain_entry \<noteq> []
      then (case ios_dev_root w (ios_version toolchain_entry) of
              Inl missing \<Rightarrow> Inl (InvalidSdkRoot missing)
            | Inr root \<Rightarrow>
                if truthy root then Inr (env(''DEVELOPER_DIR'' \<mapsto> opt_str root))
                else Inr env)
      else Inr env)"

text \<open>Lines 232 to 235.\<close>

definition tune_nocodesign :: "world \<Rightarrow> toolchain \<Rightarrow> environment \<Rightarrow> error + environment" where
  "tune_nocodesign w toolchain_entry env =
     (if nocodesign toolchain_entry
      then Inr (env(''XCODE_XCCONFIG_FILE'' \<mapsto>
             path_join (polly_root w) [''scripts'', ''NoCodeSign.xcconfig'']))
      else Inr env)"

text \<open>Lines 237 to 241.\<close>

definition tune_osx :: "world \<Rightarrow> toolchain \<Rightarrow> environment \<Rightarrow> error + environment" where
  "tune_osx w toolchain_entry env =
     (if osx_version toolchain_entry \<noteq> []
      then (case osx_dev_root w (osx_version toolchain_entry) of
              Inl missing \<Rightarrow> Inl (InvalidSdkRoot missing)
            | Inr root \<Rightarrow>
                if truthy root then Inr (env(''DEVELOPER_DIR'' \<mapsto> opt_str root))
                else Inr env)
      else Inr env)"

text \<open>One statement after the other; the first failure ends the run.\<close>

definition and_then :: "error + 'a \<Rightarrow> ('a \<Rightarrow> error + 'b) \<Rightarrow> error + 'b" where
  "and_then r f = (case r of Inl e \<Rightarrow> Inl e | Inr v \<Rightarrow> f v)"

definition tune_environment :: "world \<Rightarrow> toolchain \<Rightarrow> error + environment" where
  "tune_environment w toolchain_entry =
     and_then (and_then (and_then (and_then (and_then
       (tune_mingw w toolchain_entry (environ w))
       (tune_msys w toolchain_entry))
       (tune_nmake w toolchain_entry))
       (tune_ios w toolchain_entry))
       (tune_nocodesign w toolchain_entry))
       (tune_osx w toolchain_entry)"

section \<open>Directory layout (lines 203 to 289)\<close>

definition build_tag :: "args \<Rightarrow> string \<Rightarrow> toolchain \<Rightarrow> string" where
  "build_tag a polly_toolchain toolchain_entry =
     (if truthy (config a) \<and> \<not> multiconfig toolchain_entry
      then polly_toolchain @ ''-'' @ opt_str (config a)
      else polly_toolchain)"

definition toolchain_path :: "world \<Rightarrow> string \<Rightarrow> string" where
  "toolchain_path w polly_toolchain = path_join (polly_root w) [polly_toolchain @ ''.cmake'']"

definition toolchain_option :: "world \<Rightarrow> string \<Rightarrow> string" where
  "toolchain_option w polly_toolchain =
     ''-DCMAKE_TOOLCHAIN_FILE='' @ toolchain_path w polly_toolchain"

definition cdir :: "args \<Rightarrow> world \<Rightarrow> string" where
  "cdir a w = (if truthy (output_dir a) then opt_str (output_dir a) else getcwd w)"

definition build_dir :: "string \<Rightarrow> string \<Rightarrow> string" where
  "build_dir c tag = path_join c [''_builds'', tag]"

definition build_dir_option :: "string \<Rightarrow> string \<Rightarrow> string" where
  "build_dir_option c tag = ''-B'' @ build_dir c tag"

definition install_dir :: "string \<Rightarrow> string \<Rightarrow> string" where
  "install_dir c polly_toolchain = path_join c [''_install'', polly_toolchain]"





section \<open>Install mode and targets (lines 261 to 284)\<close>

definition local_install :: "args \<Rightarrow> bool" where
  "local_install a =
     (install a \<or> strip a \<or> framework a \<or> framework_device a \<or> truthy (archive a))"

definition install_target_name :: "args \<Rightarrow> string" where
  "install_target_name a =
     (if strip a then ''install/strip''
      else if local_install a then ''install''
      else [])"

text \<open>
  Modelled from the spec: \<^verbatim>\<open>detail.target.Target\<close> is not part of the source under study.
  The spec describes an ordered, deduplicated target list whose conditions are evaluated
  independently: \<open>target_add\<close> appends the name when the condition holds and the name is
  not yet listed.
\<close>

definition target_add :: "string list \<Rightarrow> bool \<Rightarrow> string \<Rightarrow> string list" where
  "target_add targets condition nm =
     (if condition then (if nm \<in> set targets then targets else targets @ [nm])
      else targets)"

definition targets :: "args \<Rightarrow> string list" where
  "targets a =
     target_add (target_add [] (local_install a) (install_target_name a))
       (truthy (target a)) (opt_str (target a))"

definition install_dir_option :: "string \<Rightarrow> string \<Rightarrow> string" where
  "install_dir_option c polly_toolchain =
     ''-DCMAKE_INSTALL_PREFIX='' @ install_dir c polly_toolchain"

section \<open>Validation: the exits of lines 243 to 287, in source order\<close>

text \<open>
  These checks follow the environment step; \<open>polly\<close> below runs \<open>tune_environment\<close>
  first and \<open>validate\<close> after it, and the first failure of either ends the run.
\<close>

definition validate :: "args \<Rightarrow> world \<Rightarrow> string \<Rightarrow> toolchain \<Rightarrow> error option" where
  "validate a w polly_toolchain toolchain_entry =
     (if \<not> path_exists w (toolchain_path w polly_toolchain)
      then Some (ToolchainFileNotFound (toolchain_path w polly_toolchain))
      else if truthy (output_dir a) \<and> \<not> path_isdir w (opt_str (output_dir a))
      then Some (BuildDirNotExists (opt_str (output_dir a)))
      else if truthy (output_dir a) \<and> \<not> access_w w (opt_str (output_dir a))
      then Some (BuildDirNotWriteable (opt_str (output_dir a)))
      else if install a \<and> strip a
      then Some BothInstallAndStrip
      else if strip a \<and> \<not> is_make toolchain_entry
      then Some StripOnlyForMakefile
      else if (framework a \<or> framework_device a) \<and> platform_system w \<noteq> ''Darwin''
      then Some FrameworkOnlyForMac
      else None)"

section \<open>Configure command (lines 314 to 356)\<close>

definition verbosity_level :: "args \<Rightarrow> string" where
  "verbosity_level a = (if verbose a then ''full'' else verbosity a)"

definition fwd_list :: "args \<Rightarrow> string list" where
  "fwd_list a = (case fwd a of None \<Rightarrow> [] | Some xs \<Rightarrow> xs)"

definition generate_command :: "args \<Rightarrow> world \<Rightarrow> string \<Rightarrow> toolchain \<Rightarrow> string list" where
  "generate_command a w polly_toolchain toolchain_entry =
     (let c = cdir a w;
          home_dir = (if truthy (home a) then opt_str (home a) else ''.'');
          cmd = [''cmake'', ''-H'' @ home_dir,
                 build_dir_option c (build_tag a polly_toolchain toolchain_entry)];
          cmd = (if truthy (config a) \<and> \<not> multiconfig toolchain_entry
                 then cmd @ [''-DCMAKE_BUILD_TYPE='' @ opt_str (config a)] else cmd);
          cmd = (if generator toolchain_entry \<noteq> []
                 then cmd @ [''-G'' @ generator toolchain_entry] else cmd);
          cmd = (if xp toolchain_entry
                 then cmd @ [''-T'' @ (''v'' @ vs_version toolchain_entry @ ''0_xp'')] else cmd);
          cmd = (if toolchain_option w polly_toolchain \<noteq> []
                 then cmd @ [toolchain_option w polly_toolchain] else cmd);
          cmd = (if verbosity_level a = ''full''
                 then cmd @ [''-DCMAKE_VERBOSE_MAKEFILE=ON'', ''-DPOLLY_STATUS_DEBUG=ON'',
                             ''-DHUNTER_STATUS_DEBUG=ON'']
                 else cmd);
          cmd = (if ios_multiarch a
                 then cmd @ [''-DCMAKE_XCODE_ATTRIBUTE_ONLY_ACTIVE_ARCH=NO''] else cmd);
          cmd = (if ios_combined a
                 then cmd @ [''-DCMAKE_IOS_INSTALL_COMBINED=YES''] else cmd);
          cmd = (if local_install a
                 then cmd @ [install_dir_option c polly_toolchain] else cmd);
          cmd = (if truthy (pack a)
                 then cmd @ [''-DCPACK_GENERATOR='' @ opt_str (pack a)] else cmd)
      in foldl (\<lambda>cmd x. cmd @ [''-D'' @ x]) cmd (fwd_list a))"

section \<open>Build command (lines 366 to 395)\<close>

text \<open>
  \<^verbatim>\<open>target.args()\<close> belongs to \<^verbatim>\<open>detail.target\<close>, which is not part of the source under
  study; the function that turns the target list into tokens is the parameter
  \<open>target_args\<close>. The conversion \<^verbatim>\<open>int(toolchain_entry.vs_version)\<close> of line 394 is only
  evaluated when the two earlier branches were not taken and \<^verbatim>\<open>is_msvc\<close> holds.
\<close>

definition build_command ::
  "(string list \<Rightarrow> string list) \<Rightarrow> args \<Rightarrow> world \<Rightarrow> string \<Rightarrow> toolchain \<Rightarrow> error + string list"
where
  "build_command target_args a w polly_toolchain toolchain_entry =
     (let cmd = [''cmake'', ''--build'',
                 build_dir (cdir a w) (build_tag a polly_toolchain toolchain_entry)];
          cmd = (if truthy (config a) then cmd @ [''--config'', opt_str (config a)] else cmd);
          cmd = cmd @ target_args (targets a);
          cmd = cmd @ [''--''];
          cmd = (if iossim a
                 then cmd @ [''-arch'', ''i386'', ''-sdk'', ''iphonesimulator''] else cmd)
      in if truthy_int (jobs a) then
           if is_xcode toolchain_entry
           then Inr (cmd @ [''-jobs'', str_int (opt_int (jobs a))])
           else if is_make toolchain_entry \<and> \<not> is_nmake toolchain_entry
           then Inr (cmd @ [''-j'', str_int (opt_int (jobs a))])
           else if is_msvc toolchain_entry
           then (case py_int (vs_version toolchain_entry) of
                   None \<Rightarrow> Inl (ValueError (vs_version toolchain_entry))
                 | Some v \<Rightarrow>
                     if v \<ge> 12
                     then Inr (cmd @ [''/maxcpucount:'' @ str_int (opt_int (jobs a))])
                     else Inr cmd)
           else Inr cmd
         else Inr cmd)"

section \<open>The script up to the build call\<close>

text \<open>
  The inputs \<open>polly_toolchain\<close> and \<open>toolchain_entry\<close> are the results of lines 196 and
  197, the resolved name and its table entry. \<open>Inl e\<close>: the script ends with \<open>e\<close> in the
  environment step or at one of its \<^verbatim>\<open>sys.exit\<close> calls, all of which lie before line 291,
  so no command has been composed or run. \<open>Inr (g, b)\<close>: \<open>g\<close> is the token list handed to
  the configure step at line 361, and \<open>b\<close> is what lines 366 to 395 produce afterwards,
  the build command or the exception raised while composing it; the build command is
  composed whether or not \<^verbatim>\<open>--nobuild\<close> keeps it from being run. The commands run in the
  environment that \<open>tune_environment\<close> returns. The calls of lines 291 to 312 into the
  removal, logging and process-runner collaborators change no path and no token.
\<close>

definition polly ::
  "(string list \<Rightarrow> string list) \<Rightarrow> args \<Rightarrow> world \<Rightarrow> string \<Rightarrow> toolchain
     \<Rightarrow> error + (string list \<times> (error + string list))"
where
  "polly target_args a w polly_toolchain toolchain_entry =
     (case tune_environment w toolchain_entry of
        Inl e \<Rightarrow> Inl e
      | Inr env \<Rightarrow>
          (case validate a w polly_toolchain toolchain_entry of
             Some e \<Rightarrow> Inl e
           | None \<Rightarrow>
               Inr (generate_command a w polly_toolchain toolchain_entry,
                    build_command target_args a w polly_toolchain toolchain_entry)))"

section \<open>Sample inputs\<close>

text \<open>
  Modelled from the spec: the toolchain table is not part of the source under study. The
  spec's scenarios name a single-config toolchain \<^verbatim>\<open>ninja\<close> with generator token
  \<^verbatim>\<open>Ninja\<close> and a multiconfig toolchain \<^verbatim>\<open>xcode\<close>; the other two entries are a Makefile
  and a Visual Studio descriptor of the same shape.
\<close>

definition ninja_entry :: toolchain where
  "ninja_entry =
     \<lparr> name = ''ninja'', generator = ''Ninja'', multiconfig = False, is_make = False,
       is_nmake = False, is_ninja = True, is_xcode = False, is_msvc = False,
       vs_version = [], arch = [], ios_version = [], osx_version = [], xp = False,
       nocodesign = False \<rparr>"

definition xcode_entry :: toolchain where
  "xcode_entry =
     \<lparr> name = ''xcode'', generator = ''Xcode'', multiconfig = True, is_make = False,
       is_nmake = False, is_ninja = False, is_xcode = True, is_msvc = False,
       vs_version = [], arch = [], ios_version = [], osx_version = [], xp = False,
       nocodesign = False \<rparr>"

definition gcc_entry :: toolchain where
  "gcc_entry =
     \<lparr> name = ''gcc'', generator = ''Unix Makefiles'', multiconfig = False, is_make = True,
       is_nmake = False, is_ninja = False, is_xcode = False, is_msvc = False,
       vs_version = [], arch = [], ios_version = [], osx_version = [], xp = False,
       nocodesign = False \<rparr>"

definition vs_entry :: toolchain where
  "vs_entry =
     \<lparr> name = ''vs-12-2013'', generator = ''Visual Studio 12 2013'', multiconfig = True,
       is_make = False, is_nmake = False, is_ninja = False, is_xcode = False,
       is_msvc = True, vs_version = ''12'', arch = [], ios_version = [],
       osx_version = [], xp = False, nocodesign = False \<rparr>"

text \<open>
  The two toolchains whose environment step can fail in the sample runs: MinGW, which
  needs \<^verbatim>\<open>MINGW_PATH\<close>, and Ninja with the Visual Studio 12 compiler, which needs the
  vendor environment.
\<close>

definition mingw_entry :: toolchain where
  "mingw_entry =
     \<lparr> name = ''mingw'', generator = ''MinGW Makefiles'', multiconfig = False,
       is_make = True, is_nmake = False, is_ninja = False, is_xcode = False,
       is_msvc = False, vs_version = [], arch = [], ios_version = [], osx_version = [],
       xp = False, nocodesign = False \<rparr>"


text \<open>
  A machine on which every toolchain file is present and every directory exists and is
  writable, and one on which nothing exists. On both, only \<^verbatim>\<open>PATH\<close> is set, no SDK root
  is found, and the vendor environment of Visual Studio is not installed.
\<close>

definition linux_world :: world where
  "linux_world =
     \<lparr> polly_root = ''/opt/polly'', getcwd = ''/tmp/proj'', path_exists = (\<lambda>p. True),
       path_isdir = (\<lambda>p. True), access_w = (\<lambda>p. True), platform_system = ''Linux'',
       environ = [''PATH'' \<mapsto> ''/usr/bin''],
       get_nmake_environment = (\<lambda>a v. Inl (''VS'' @ v @ ''0COMNTOOLS'')),
       ios_dev_root = (\<lambda>v. Inr None), osx_dev_root = (\<lambda>v. Inr None) \<rparr>"

definition bare_world :: world where
  "bare_world =
     \<lparr> polly_root = ''/opt/polly'', getcwd = ''/tmp/proj'', path_exists = (\<lambda>p. False),
       path_isdir = (\<lambda>p. False), access_w = (\<lambda>p. False), platform_system = ''Linux'',
       environ = [''PATH'' \<mapsto> ''/usr/bin''],
       get_nmake_environment = (\<lambda>a v. Inl (''VS'' @ v @ ''0COMNTOOLS'')),
       ios_dev_root = (\<lambda>v. Inr None), osx_dev_root = (\<lambda>v. Inr None) \<rparr>"

text \<open>One token pair per target, the shape of \<^verbatim>\<open>cmake --build\<close>; used for sample runs only.\<close>

definition cmake_target_args :: "string list \<Rightarrow> string list" where
  "cmake_target_args ts = concat (map (\<lambda>t. [''--target'', t]) ts)"

text \<open>Command lines used in the sample runs.\<close>

definition release_args :: args where
  "release_args = no_args\<lparr>config := Some ''Release''\<rparr>"

definition debug_args :: args where
  "debug_args = no_args\<lparr>config := Some ''Debug''\<rparr>"

definition xcode_debug_args :: args where
  "xcode_debug_args = no_args\<lparr>config := Some ''Debug'', jobs := Some 4, install := True\<rparr>"

definition vs_sim_args :: args where
  "vs_sim_args = no_args\<lparr>jobs := Some 8, iossim := True\<rparr>"

definition fwd_build_type_args :: args where
  "fwd_build_type_args = no_args\<lparr>fwd := Some [''CMAKE_BUILD_TYPE=Debug'']\<rparr>"

definition fwd_dup_args :: args where
  "fwd_dup_args = no_args\<lparr>fwd := Some [''A=1'', ''B=2'', ''A=3'']\<rparr>"

definition fwd_prefix_args :: args where
  "fwd_prefix_args =
     no_args\<lparr>fwd := Some [''CMAKE_INSTALL_PREFIX=/tmp/proj/_install/gcc'']\<rparr>"

definition target_install_args :: args where
  "target_install_args = no_args\<lparr>target := Some ''install''\<rparr>"

definition archive_args :: args where
  "archive_args = no_args\<lparr>archive := Some ''pkg''\<rparr>"



definition install_strip_args :: args where
  "install_strip_args = no_args\<lparr>install := True, strip := True\<rparr>"

definition bad_output_args :: args where
  "bad_output_args =
     no_args\<lparr>install := True, strip := True, output_dir := Some ''/nonexistent''\<rparr>"


definition negative_jobs_args :: args where
  "negative_jobs_args = no_args\<lparr>jobs := Some (- 3)\<rparr>"

definition zero_jobs_args :: args where
  "zero_jobs_args = no_args\<lparr>jobs := Some 0\<rparr>"

text \<open>The machine of \<open>linux_world\<close>, except that \<^verbatim>\<open>/nonexistent\<close> is not a directory.\<close>

definition missing_output_world :: world where
  "missing_output_world = linux_world\<lparr>path_isdir := (\<lambda>p. p \<noteq> ''/nonexistent'')\<rparr>"

section \<open>Auxiliary facts\<close>

lemma foldl_append_definitions:
  "foldl (\<lambda>cmd x. cmd @ [''-D'' @ x]) cmd xs = cmd @ map (\<lambda>x. ''-D'' @ x) xs"
  by (induction xs arbitrary: cmd) simp_all

lemma if_append_same: "(if c then cmd @ xs else cmd) = cmd @ (if c then xs else [])"
  by simp

lemma mem_set_if: "x \<in> set (if c then xs else []) \<longleftrightarrow> c \<and> x \<in> set xs"
  by simp

lemma bex_set_if:
  "(\<exists>t \<in> set (if c then xs else []). P t) \<longleftrightarrow> c \<and> (\<exists>t \<in> set xs. P t)"
  by auto

lemma fwd_list_None: "fwd_list (a\<lparr>fwd := None\<rparr>) = []"
  by (simp add: fwd_list_def)

text \<open>The appends of lines 318 to 356, written as one concatenation.\<close>

lemma generate_command_closed_form:
  "generate_command a w pt te =
     [''cmake'', ''-H'' @ (if truthy (home a) then opt_str (home a) else ''.''),
      ''-B'' @ build_dir (cdir a w) (build_tag a pt te)]
     @ (if truthy (config a) \<and> \<not> multiconfig te
        then [''-DCMAKE_BUILD_TYPE='' @ opt_str (config a)] else [])
     @ (if generator te \<noteq> [] then [''-G'' @ generator te] else [])
     @ (if xp te then [''-T'' @ (''v'' @ vs_version te @ ''0_xp'')] else [])
     @ [''-DCMAKE_TOOLCHAIN_FILE='' @ toolchain_path w pt]
     @ (if verbosity_level a = ''full''
        then [''-DCMAKE_VERBOSE_MAKEFILE=ON'', ''-DPOLLY_STATUS_DEBUG=ON'',
              ''-DHUNTER_STATUS_DEBUG=ON''] else [])
     @ (if ios_multiarch a then [''-DCMAKE_XCODE_ATTRIBUTE_ONLY_ACTIVE_ARCH=NO''] else [])
     @ (if ios_combined a then [''-DCMAKE_IOS_INSTALL_COMBINED=YES''] else [])
     @ (if local_install a
        then [''-DCMAKE_INSTALL_PREFIX='' @ install_dir (cdir a w) pt] else [])
     @ (if truthy (pack a) then [''-DCPACK_GENERATOR='' @ opt_str (pack a)] else [])
     @ map (\<lambda>x. ''-D'' @ x) (fwd_list a)"
  unfolding generate_command_def if_append_same foldl_append_definitions
    build_dir_option_def toolchain_option_def install_dir_option_def
  by (simp add: Let_def split del: if_split)

lemma generate_command_fwd_split:
  "generate_command a w pt te =
     generate_command (a\<lparr>fwd := None\<rparr>) w pt te @ map (\<lambda>x. ''-D'' @ x) (fwd_list a)"
proof -
  have "build_tag (a\<lparr>fwd := None\<rparr>) pt te = build_tag a pt te"
    "cdir (a\<lparr>fwd := None\<rparr>) w = cdir a w"
    "local_install (a\<lparr>fwd := None\<rparr>) = local_install a"
    "verbosity_level (a\<lparr>fwd := None\<rparr>) = verbosity_level a"
    by (simp_all add: build_tag_def cdir_def local_install_def verbosity_level_def)
  then show ?thesis
    by (simp add: generate_command_closed_form [of "a\<lparr>fwd := None\<rparr>"]
        generate_command_closed_form [of a] fwd_list_None split del: if_split cong: if_cong)
qed

text \<open>The tokens that the script composes itself, before the forwarded definitions.\<close>

lemma generate_command_without_fwd:
  "generate_command (a\<lparr>fwd := None\<rparr>) w pt te =
     [''cmake'', ''-H'' @ (if truthy (home a) then opt_str (home a) else ''.''),
      ''-B'' @ build_dir (cdir a w) (build_tag a pt te)]
     @ (if truthy (config a) \<and> \<not> multiconfig te
        then [''-DCMAKE_BUILD_TYPE='' @ opt_str (config a)] else [])
     @ (if generator te \<noteq> [] then [''-G'' @ generator te] else [])
     @ (if xp te then [''-T'' @ (''v'' @ vs_version te @ ''0_xp'')] else [])
     @ [''-DCMAKE_TOOLCHAIN_FILE='' @ toolchain_path w pt]
     @ (if verbosity_level a = ''full''
        then [''-DCMAKE_VERBOSE_MAKEFILE=ON'', ''-DPOLLY_STATUS_DEBUG=ON'',
              ''-DHUNTER_STATUS_DEBUG=ON''] else [])
     @ (if ios_multiarch a then [''-DCMAKE_XCODE_ATTRIBUTE_ONLY_ACTIVE_ARCH=NO''] else [])
     @ (if ios_combined a then [''-DCMAKE_IOS_INSTALL_COMBINED=YES''] else [])
     @ (if local_install a
        then [''-DCMAKE_INSTALL_PREFIX='' @ install_dir (cdir a w) pt] else [])
     @ (if truthy (pack a) then [''-DCPACK_GENERATOR='' @ opt_str (pack a)] else [])"
proof -
  have "build_tag (a\<lparr>fwd := None\<rparr>) pt te = build_tag a pt te"
    "cdir (a\<lparr>fwd := None\<rparr>) w = cdir a w"
    "local_install (a\<lparr>fwd := None\<rparr>) = local_install a"
    "verbosity_level (a\<lparr>fwd := None\<rparr>) = verbosity_level a"
    by (simp_all add: build_tag_def cdir_def local_install_def verbosity_level_def)
  then show ?thesis
    by (simp add: generate_command_closed_form [of "a\<lparr>fwd := None\<rparr>"] fwd_list_None
        split del: if_split cong: if_cong)
qed







section \<open>Build directory tag\<close>

text \<open>
  Claim C1. The build directory tag is the toolchain name followed by a hyphen and the
  configuration when a (non-empty) configuration is supplied and the toolchain is not
  multiconfig; when no configuration is given (absent, or the empty text that Python
  treats as absent) or the toolchain is multiconfig, the tag is the toolchain name alone.
\<close>

theorem build_tag_derivation:
  "(\<forall>c. config a = Some c \<and> c \<noteq> [] \<and> \<not> multiconfig te \<longrightarrow>
        build_tag a pt te = pt @ ''-'' @ c) \<and>
   (config a = None \<or> config a = Some [] \<or> multiconfig te \<longrightarrow> build_tag a pt te = pt)"
  by (auto simp: build_tag_def truthy_def opt_str_def)

theorem build_tag_derivation_witness:
  "build_tag release_args ''ninja'' ninja_entry = ''ninja-Release'' \<and>
   build_tag debug_args ''xcode'' xcode_entry = ''xcode''"
proof -
  have r: "config release_args = Some ''Release'' \<and> ''Release'' \<noteq> [] \<and>
      \<not> multiconfig ninja_entry"
    by code_simp
  have d: "multiconfig xcode_entry"
    by code_simp
  from build_tag_derivation [of release_args ninja_entry "''ninja''"] r
  have "build_tag release_args ''ninja'' ninja_entry = ''ninja'' @ ''-'' @ ''Release''"
    by blast
  moreover from build_tag_derivation [of debug_args xcode_entry "''xcode''"] d
  have "build_tag debug_args ''xcode'' xcode_entry = ''xcode''"
    by blast
  ultimately show ?thesis by simp
qed

section \<open>Build command\<close>

text \<open>
  Claim C2. The build command is, in this order: \<^verbatim>\<open>cmake\<close>, \<^verbatim>\<open>--build\<close>, the build
  directory; \<^verbatim>\<open>--config\<close> and the configuration exactly when a configuration was
  requested, whether or not the toolchain is multiconfig; the target arguments; the
  separator \<^verbatim>\<open>--\<close>; the four simulator tokens when \<^verbatim>\<open>--iossim\<close> was given; and the
  parallelism tokens: \<^verbatim>\<open>-jobs N\<close> for Xcode, \<^verbatim>\<open>-j N\<close> for a Makefile driver other than
  NMake, \<^verbatim>\<open>/maxcpucount:N\<close> for MSVC with version at least 12, and nothing for any other
  driver. The descriptor of an MSVC toolchain is assumed to carry a numeric version.
\<close>

theorem build_command_tokens:
  assumes "is_msvc te \<longrightarrow> py_int (vs_version te) \<noteq> None"
  shows "build_command targs a w pt te =
     Inr ([''cmake'', ''--build'', build_dir (cdir a w) (build_tag a pt te)]
          @ (if truthy (config a) then [''--config'', opt_str (config a)] else [])
          @ targs (targets a)
          @ [''--'']
          @ (if iossim a then [''-arch'', ''i386'', ''-sdk'', ''iphonesimulator''] else [])
          @ (if \<not> truthy_int (jobs a) then []
             else if is_xcode te then [''-jobs'', str_int (opt_int (jobs a))]
             else if is_make te \<and> \<not> is_nmake te then [''-j'', str_int (opt_int (jobs a))]
             else if is_msvc te \<and>
                     (case py_int (vs_version te) of None \<Rightarrow> False | Some v \<Rightarrow> 12 \<le> v)
             then [''/maxcpucount:'' @ str_int (opt_int (jobs a))]
             else []))"
  using assms by (auto simp: build_command_def Let_def split: option.splits)

theorem build_command_tokens_witness:
  "build_command cmake_target_args xcode_debug_args linux_world ''xcode'' xcode_entry =
     Inr [''cmake'', ''--build'', ''/tmp/proj/_builds/xcode'', ''--config'', ''Debug'',
          ''--target'', ''install'', ''--'', ''-jobs'', ''4'']
   \<and> build_command cmake_target_args vs_sim_args linux_world ''vs-12-2013'' vs_entry =
     Inr [''cmake'', ''--build'', ''/tmp/proj/_builds/vs-12-2013'', ''--'',
          ''-arch'', ''i386'', ''-sdk'', ''iphonesimulator'', ''/maxcpucount:8'']"
proof -
  have x: "is_msvc xcode_entry \<longrightarrow> py_int (vs_version xcode_entry) \<noteq> None"
    by code_simp
  have v: "is_msvc vs_entry \<longrightarrow> py_int (vs_version vs_entry) \<noteq> None"
    by code_simp
  note t1 = build_command_tokens
    [OF x, of cmake_target_args xcode_debug_args linux_world "''xcode''"]
  note t2 = build_command_tokens
    [OF v, of cmake_target_args vs_sim_args linux_world "''vs-12-2013''"]
  show ?thesis unfolding t1 t2 by code_simp
qed

section \<open>Configure command\<close>

text \<open>
  Against claim C3 as first stated: with a multiconfig toolchain and no \<^verbatim>\<open>--config\<close>, a
  forwarded definition \<^verbatim>\<open>--fwd CMAKE_BUILD_TYPE=Debug\<close> still puts a build-type definition
  into the configure command.
\<close>

theorem forwarded_build_type_counterexample:
  "config fwd_build_type_args = None \<and> multiconfig xcode_entry \<and>
   generate_command fwd_build_type_args linux_world ''xcode'' xcode_entry =
     [''cmake'', ''-H.'', ''-B/tmp/proj/_builds/xcode'', ''-GXcode'',
      ''-DCMAKE_TOOLCHAIN_FILE=/opt/polly/xcode.cmake'', ''-DCMAKE_BUILD_TYPE=Debug'']"
  by code_simp

text \<open>
  Claim C3, amended. The configure command is the tokens composed by the script followed by
  the forwarded definitions. The composed tokens contain the source-directory flag and the
  build-directory flag, and they contain a \<^verbatim>\<open>CMAKE_BUILD_TYPE\<close> definition if and only if
  the toolchain is not multiconfig and a non-empty configuration was requested; the
  definition is then \<^verbatim>\<open>-DCMAKE_BUILD_TYPE=<config>\<close>.
\<close>

theorem configure_command_flags:
  "generate_command a w pt te =
     generate_command (a\<lparr>fwd := None\<rparr>) w pt te @ map (\<lambda>x. ''-D'' @ x) (fwd_list a) \<and>
   ''-H'' @ (if truthy (home a) then opt_str (home a) else ''.'')
     \<in> set (generate_command (a\<lparr>fwd := None\<rparr>) w pt te) \<and>
   ''-B'' @ build_dir (cdir a w) (build_tag a pt te)
     \<in> set (generate_command (a\<lparr>fwd := None\<rparr>) w pt te) \<and>
   ((\<exists>tok \<in> set (generate_command (a\<lparr>fwd := None\<rparr>) w pt te).
        prefix ''-DCMAKE_BUILD_TYPE='' tok)
      \<longleftrightarrow> truthy (config a) \<and> \<not> multiconfig te) \<and>
   (truthy (config a) \<and> \<not> multiconfig te \<longrightarrow>
      ''-DCMAKE_BUILD_TYPE='' @ opt_str (config a)
        \<in> set (generate_command (a\<lparr>fwd := None\<rparr>) w pt te))"
proof -
  let ?b = "a\<lparr>fwd := None\<rparr>"
  note c = generate_command_without_fwd [of a w pt te]
  have 1: "generate_command a w pt te =
     generate_command ?b w pt te @ map (\<lambda>x. ''-D'' @ x) (fwd_list a)"
    by (rule generate_command_fwd_split)
  have 2: "''-H'' @ (if truthy (home a) then opt_str (home a) else ''.'')
      \<in> set (generate_command ?b w pt te)"
    unfolding c by simp
  have 3: "''-B'' @ build_dir (cdir a w) (build_tag a pt te)
      \<in> set (generate_command ?b w pt te)"
    unfolding c by simp
  have 4: "(\<exists>tok \<in> set (generate_command ?b w pt te). prefix ''-DCMAKE_BUILD_TYPE='' tok)
      \<longleftrightarrow> truthy (config a) \<and> \<not> multiconfig te"
    unfolding c by (auto simp add: bex_Un bex_set_if split del: if_split)
  have 5: "truthy (config a) \<and> \<not> multiconfig te \<longrightarrow>
      ''-DCMAKE_BUILD_TYPE='' @ opt_str (config a) \<in> set (generate_command ?b w pt te)"
    unfolding c by simp
  from 1 2 3 4 5 show ?thesis by blast
qed

theorem configure_command_flags_witness:
  "generate_command release_args linux_world ''ninja'' ninja_entry =
     [''cmake'', ''-H.'', ''-B/tmp/proj/_builds/ninja-Release'', ''-DCMAKE_BUILD_TYPE=Release'',
      ''-GNinja'', ''-DCMAKE_TOOLCHAIN_FILE=/opt/polly/ninja.cmake'']
   \<and> ''-DCMAKE_BUILD_TYPE=Release''
        \<in> set (generate_command (release_args\<lparr>fwd := None\<rparr>) linux_world ''ninja''
                  ninja_entry)"
proof -
  have h: "truthy (config release_args) \<and> \<not> multiconfig ninja_entry"
    by code_simp
  have o: "opt_str (config release_args) = ''Release''"
    by code_simp
  from configure_command_flags [of release_args linux_world "''ninja''" ninja_entry] h
  have "''-DCMAKE_BUILD_TYPE='' @ opt_str (config release_args)
        \<in> set (generate_command (release_args\<lparr>fwd := None\<rparr>) linux_world ''ninja''
                  ninja_entry)"
    by blast
  then have "''-DCMAKE_BUILD_TYPE=Release''
        \<in> set (generate_command (release_args\<lparr>fwd := None\<rparr>) linux_world ''ninja''
                  ninja_entry)"
    unfolding o by simp
  moreover have "generate_command release_args linux_world ''ninja'' ninja_entry =
     [''cmake'', ''-H.'', ''-B/tmp/proj/_builds/ninja-Release'', ''-DCMAKE_BUILD_TYPE=Release'',
      ''-GNinja'', ''-DCMAKE_TOOLCHAIN_FILE=/opt/polly/ninja.cmake'']"
    by code_simp
  ultimately show ?thesis by blast
qed

section \<open>Artifact paths\<close>




section \<open>Validation\<close>

text \<open>
  Against claim C5 as first stated: for the MinGW toolchain with \<^verbatim>\<open>MINGW_PATH\<close> unset and
  the toolchain file missing, the run ends in the environment step at line 212, before
  the toolchain file is looked for.
\<close>

theorem environment_exit_first_counterexample:
  "\<not> path_exists bare_world (toolchain_path bare_world ''mingw'') \<and>
   polly cmake_target_args no_args bare_world ''mingw'' mingw_entry =
     Inl (MissingRequiredEnvVar ''MINGW_PATH'')"
  by code_simp

text \<open>
  Claim C5, amended. The toolchain file is looked up at
  \<^verbatim>\<open>{polly_root}/{toolchainName}.cmake\<close>. When it does not exist, the run ends with a fatal
  error and no command is composed or run; the error is the toolchain-file-not-found error
  whenever the environment step that comes first (lines 209 to 241) has succeeded. The
  flag is never skipped: whenever a configure command is reached, the file exists and the
  command carries the toolchain-file flag.
\<close>

theorem missing_toolchain_file_is_fatal:
  "toolchain_path w pt = path_join (polly_root w) [pt @ ''.cmake''] \<and>
   (\<not> path_exists w (toolchain_path w pt) \<longrightarrow>
      (\<exists>e. polly targs a w pt te = Inl e) \<and>
      (\<not> isl (tune_environment w te) \<longrightarrow>
         polly targs a w pt te = Inl (ToolchainFileNotFound (toolchain_path w pt)))) \<and>
   (\<forall>g b. polly targs a w pt te = Inr (g, b) \<longrightarrow>
      path_exists w (toolchain_path w pt) \<and>
      ''-DCMAKE_TOOLCHAIN_FILE='' @ toolchain_path w pt \<in> set g)"
proof -
  have 1: "toolchain_path w pt = path_join (polly_root w) [pt @ ''.cmake'']"
    by (simp add: toolchain_path_def)
  have 2: "\<exists>e. polly targs a w pt te = Inl e" if "\<not> path_exists w (toolchain_path w pt)"
    using that by (cases "tune_environment w te") (simp_all add: polly_def validate_def)
  have 3: "polly targs a w pt te = Inl (ToolchainFileNotFound (toolchain_path w pt))"
    if "\<not> path_exists w (toolchain_path w pt)" and "\<not> isl (tune_environment w te)"
    using that by (cases "tune_environment w te") (simp_all add: polly_def validate_def)
  have 4: "path_exists w (toolchain_path w pt)" if "polly targs a w pt te = Inr (g, b)" for g b
    using that
    by (cases "tune_environment w te")
      (auto simp: polly_def validate_def split: option.splits if_splits)
  have 5: "''-DCMAKE_TOOLCHAIN_FILE='' @ toolchain_path w pt \<in> set g"
    if "polly targs a w pt te = Inr (g, b)" for g b
  proof -
    from that have "g = generate_command a w pt te"
      by (cases "tune_environment w te") (auto simp: polly_def split: option.splits)
    then show ?thesis
      unfolding generate_command_closed_form by simp
  qed
  from 1 2 3 4 5 show ?thesis by blast
qed

theorem missing_toolchain_file_is_fatal_witness:
  "polly cmake_target_args release_args bare_world ''ninja'' ninja_entry =
     Inl (ToolchainFileNotFound ''/opt/polly/ninja.cmake'')"
proof -
  have h: "\<not> path_exists bare_world (toolchain_path bare_world ''ninja'')"
    by code_simp
  have t: "\<not> isl (tune_environment bare_world ninja_entry)"
    by code_simp
  have p: "toolchain_path bare_world ''ninja'' = ''/opt/polly/ninja.cmake''"
    by code_simp
  from missing_toolchain_file_is_fatal
    [of bare_world "''ninja''" cmake_target_args release_args ninja_entry] h t
  have "polly cmake_target_args release_args bare_world ''ninja'' ninja_entry =
     Inl (ToolchainFileNotFound (toolchain_path bare_world ''ninja''))"
    by blast
  then show ?thesis unfolding p .
qed

text \<open>
  Against claim C6 as first stated: with \<^verbatim>\<open>--install --strip --output /nonexistent\<close> the
  run ends with the build-directory error of line 250, with a missing toolchain file it
  ends with the error of line 245, and for MinGW with \<^verbatim>\<open>MINGW_PATH\<close> unset it ends in the
  environment step at line 212; all of these come before line 264.
\<close>

theorem install_and_strip_counterexample:
  "install bad_output_args \<and> strip bad_output_args \<and>
   polly cmake_target_args bad_output_args missing_output_world ''gcc'' gcc_entry =
     Inl (BuildDirNotExists ''/nonexistent'') \<and>
   polly cmake_target_args install_strip_args bare_world ''gcc'' gcc_entry =
     Inl (ToolchainFileNotFound ''/opt/polly/gcc.cmake'') \<and>
   polly cmake_target_args install_strip_args linux_world ''mingw'' mingw_entry =
     Inl (MissingRequiredEnvVar ''MINGW_PATH'')"
  by code_simp

text \<open>
  Claim C6, amended. For every toolchain and every combination of other options, requesting
  both \<^verbatim>\<open>--install\<close> and \<^verbatim>\<open>--strip\<close> ends the run with a fatal error before any configure
  or build command is composed; the error is the conflicting-install-mode error whenever
  the steps that come first pass: the environment step succeeds, the toolchain file
  exists, and the \<^verbatim>\<open>--output\<close> directory, if one is given, is an existing writable
  directory.
\<close>

theorem install_and_strip_conflict:
  assumes "install a" and "strip a"
  shows "(\<exists>e. polly targs a w pt te = Inl e) \<and>
     (\<not> isl (tune_environment w te) \<and> path_exists w (toolchain_path w pt) \<and>
      (truthy (output_dir a) \<longrightarrow>
         path_isdir w (opt_str (output_dir a)) \<and> access_w w (opt_str (output_dir a))) \<longrightarrow>
      polly targs a w pt te = Inl BothInstallAndStrip)"
  using assms by (cases "tune_environment w te") (auto simp: polly_def validate_def)

theorem install_and_strip_conflict_witness:
  "polly cmake_target_args install_strip_args linux_world ''xcode'' xcode_entry =
     Inl BothInstallAndStrip"
proof -
  have h: "install install_strip_args" "strip install_strip_args"
    by code_simp+
  have t: "\<not> isl (tune_environment linux_world xcode_entry)"
    by code_simp
  have e: "path_exists linux_world (toolchain_path linux_world ''xcode'')"
    by code_simp
  have o: "\<not> truthy (output_dir install_strip_args)"
    by code_simp
  from install_and_strip_conflict
    [OF h, of cmake_target_args linux_world "''xcode''" xcode_entry] t e o
  show ?thesis by blast
qed




section \<open>The type of the jobs option\<close>

text \<open>
  Claim C8. The claim is that \<^verbatim>\<open>--jobs\<close> accepts positive integers only. The option is
  declared with \<^verbatim>\<open>type=int\<close>, so the values \<^verbatim>\<open>0\<close> and \<^verbatim>\<open>-3\<close> are accepted, where the
  sibling options typed \<^verbatim>\<open>PositiveInt\<close> reject them: \<^verbatim>\<open>-3\<close> reaches the build command as
  \<^verbatim>\<open>-j -3\<close>, and \<^verbatim>\<open>0\<close> is dropped without a message.
\<close>

theorem jobs_accepts_non_positive:
  "jobs_type ''0'' = Inr 0 \<and> jobs_type ''-3'' = Inr (- 3) \<and>
   PositiveInt ''0'' = Inl (ArgumentTypeError ''Should be greater that zero: 0'') \<and>
   PositiveInt ''-3'' = Inl (ArgumentTypeError ''Should be greater that zero: -3'') \<and>
   build_command cmake_target_args negative_jobs_args linux_world ''gcc'' gcc_entry =
     Inr [''cmake'', ''--build'', ''/tmp/proj/_builds/gcc'', ''--'', ''-j'', ''-3''] \<and>
   build_command cmake_target_args zero_jobs_args linux_world ''gcc'' gcc_entry =
     Inr [''cmake'', ''--build'', ''/tmp/proj/_builds/gcc'', ''--'']"
  by code_simp

section \<open>Forwarded definitions\<close>

text \<open>
  Claim C9. When \<^verbatim>\<open>--fwd\<close> definitions are given, the configure command is the command
  composed without them followed by exactly those definitions, each prefixed with \<^verbatim>\<open>-D\<close>,
  in the order supplied; nothing is removed or reordered, so duplicate keys stay as they
  are.
\<close>

theorem forwarded_definitions_last:
  "fwd a = Some xs \<Longrightarrow>
   generate_command a w pt te =
     generate_command (a\<lparr>fwd := None\<rparr>) w pt te @ map (\<lambda>x. ''-D'' @ x) xs"
  using generate_command_fwd_split [of a w pt te] by (simp add: fwd_list_def)

theorem forwarded_definitions_last_witness:
  "generate_command fwd_dup_args linux_world ''gcc'' gcc_entry =
     [''cmake'', ''-H.'', ''-B/tmp/proj/_builds/gcc'', ''-GUnix Makefiles'',
      ''-DCMAKE_TOOLCHAIN_FILE=/opt/polly/gcc.cmake''] @ [''-DA=1'', ''-DB=2'', ''-DA=3'']"
proof -
  have f: "fwd fwd_dup_args = Some [''A=1'', ''B=2'', ''A=3'']"
    by code_simp
  have g: "generate_command (fwd_dup_args\<lparr>fwd := None\<rparr>) linux_world ''gcc'' gcc_entry =
     [''cmake'', ''-H.'', ''-B/tmp/proj/_builds/gcc'', ''-GUnix Makefiles'',
      ''-DCMAKE_TOOLCHAIN_FILE=/opt/polly/gcc.cmake'']"
    by code_simp
  show ?thesis
    unfolding forwarded_definitions_last [OF f, of linux_world "''gcc''" gcc_entry] g by simp
qed

section \<open>Local install mode\<close>

text \<open>
  Against claim C10 as first stated: with none of the five options, \<^verbatim>\<open>--target install\<close>
  puts the target \<^verbatim>\<open>install\<close> into the target list, and a forwarded
  \<^verbatim>\<open>CMAKE_INSTALL_PREFIX\<close> definition appears in the configure command.
\<close>

theorem install_passthrough_counterexample:
  "\<not> local_install target_install_args \<and> targets target_install_args = [''install''] \<and>
   \<not> local_install fwd_prefix_args \<and>
   install_dir (cdir fwd_prefix_args linux_world) ''gcc'' = ''/tmp/proj/_install/gcc'' \<and>
   generate_command fwd_prefix_args linux_world ''gcc'' gcc_entry =
     [''cmake'', ''-H.'', ''-B/tmp/proj/_builds/gcc'', ''-GUnix Makefiles'',
      ''-DCMAKE_TOOLCHAIN_FILE=/opt/polly/gcc.cmake'',
      ''-DCMAKE_INSTALL_PREFIX=/tmp/proj/_install/gcc'']"
  by code_simp

text \<open>
  Claim C10, amended. Local-install mode is active exactly when \<^verbatim>\<open>--install\<close>, \<^verbatim>\<open>--strip\<close>,
  \<^verbatim>\<open>--framework\<close>, \<^verbatim>\<open>--framework-device\<close> or a non-empty \<^verbatim>\<open>--archive\<close> is given. When it is
  active, the target list begins with \<^verbatim>\<open>install\<close> (\<^verbatim>\<open>install/strip\<close> with \<^verbatim>\<open>--strip\<close>) and
  the tokens composed by the script contain the \<^verbatim>\<open>CMAKE_INSTALL_PREFIX\<close> definition of the
  install directory \<^verbatim>\<open>{root}/_install/{toolchainName}\<close>. When it is not active, the target
  list holds only the explicit \<^verbatim>\<open>--target\<close> name, if any, and no token composed by the
  script is a \<^verbatim>\<open>CMAKE_INSTALL_PREFIX\<close> definition; the forwarded definitions follow
  unchanged.
\<close>

theorem local_install_mode:
  "local_install a =
     (install a \<or> strip a \<or> framework a \<or> framework_device a \<or> truthy (archive a)) \<and>
   generate_command a w pt te =
     generate_command (a\<lparr>fwd := None\<rparr>) w pt te @ map (\<lambda>x. ''-D'' @ x) (fwd_list a) \<and>
   (local_install a \<longrightarrow>
      (\<exists>rest. targets a = (if strip a then ''install/strip'' else ''install'') # rest) \<and>
      ''-DCMAKE_INSTALL_PREFIX='' @ path_join (cdir a w) [''_install'', pt]
        \<in> set (generate_command (a\<lparr>fwd := None\<rparr>) w pt te)) \<and>
   (\<not> local_install a \<longrightarrow>
      targets a = (if truthy (target a) then [opt_str (target a)] else []) \<and>
      (\<forall>tok \<in> set (generate_command (a\<lparr>fwd := None\<rparr>) w pt te).
         \<not> prefix ''-DCMAKE_INSTALL_PREFIX='' tok))"
proof -
  let ?b = "a\<lparr>fwd := None\<rparr>"
  note c = generate_command_without_fwd [of a w pt te]
  have 1: "local_install a =
     (install a \<or> strip a \<or> framework a \<or> framework_device a \<or> truthy (archive a))"
    by (simp add: local_install_def)
  have 2: "generate_command a w pt te =
     generate_command ?b w pt te @ map (\<lambda>x. ''-D'' @ x) (fwd_list a)"
    by (rule generate_command_fwd_split)
  have 3: "local_install a \<Longrightarrow>
      \<exists>rest. targets a = (if strip a then ''install/strip'' else ''install'') # rest"
    by (simp add: targets_def target_add_def install_target_name_def)
  have 4: "local_install a \<Longrightarrow>
      ''-DCMAKE_INSTALL_PREFIX='' @ path_join (cdir a w) [''_install'', pt]
        \<in> set (generate_command ?b w pt te)"
    unfolding c by (simp add: install_dir_def)
  have 5: "\<not> local_install a \<Longrightarrow>
      targets a = (if truthy (target a) then [opt_str (target a)] else [])"
    by (simp add: targets_def target_add_def)
  have 6: "\<not> local_install a \<Longrightarrow>
      \<forall>tok \<in> set (generate_command ?b w pt te). \<not> prefix ''-DCMAKE_INSTALL_PREFIX='' tok"
    unfolding c by (auto simp add: ball_Un split: if_splits)
  from 1 2 3 4 5 6 show ?thesis by blast
qed

theorem local_install_mode_witness:
  "targets archive_args = [''install''] \<and>
   ''-DCMAKE_INSTALL_PREFIX=/tmp/proj/_install/gcc''
     \<in> set (generate_command (archive_args\<lparr>fwd := None\<rparr>) linux_world ''gcc'' gcc_entry) \<and>
   targets no_args = []"
proof -
  have h: "local_install archive_args" "\<not> local_install no_args"
    by code_simp+
  have p: "''-DCMAKE_INSTALL_PREFIX=''
        @ path_join (cdir archive_args linux_world) [''_install'', ''gcc'']
      = ''-DCMAKE_INSTALL_PREFIX=/tmp/proj/_install/gcc''"
    by code_simp
  have t: "truthy (target no_args) = False"
    by code_simp
  from local_install_mode [of archive_args linux_world "''gcc''" gcc_entry] h(1)
  have "''-DCMAKE_INSTALL_PREFIX=''
        @ path_join (cdir archive_args linux_world) [''_install'', ''gcc'']
     \<in> set (generate_command (archive_args\<lparr>fwd := None\<rparr>) linux_world ''gcc'' gcc_entry)"
    by blast
  then have a: "''-DCMAKE_INSTALL_PREFIX=/tmp/proj/_install/gcc''
     \<in> set (generate_command (archive_args\<lparr>fwd := None\<rparr>) linux_world ''gcc'' gcc_entry)"
    unfolding p .
  from local_install_mode [of no_args linux_world "''gcc''" gcc_entry] h(2)
  have "targets no_args = (if truthy (target no_args) then [opt_str (target no_args)] else [])"
    by blast
  then have b: "targets no_args = []"
    unfolding t by simp
  have c: "targets archive_args = [''install'']"
    by code_simp
  from a b c show ?thesis by blast
qed

end
